theory Spec2Isabelle
  imports Main
begin

section \<open>JavaScript values used by the rate-limiting core\<close>

text \<open>
  Strings are HOL strings. A call that may throw returns a \<open>reply\<close>: \<open>Threw\<close> is
  the exception, \<open>Reply v\<close> the returned value. \<open>null\<close> and \<open>undefined\<close> are
  \<open>None\<close>.
\<close>

datatype 'a reply = Threw | Reply 'a

text \<open>\<open>s.startsWith(p)\<close>.\<close>

definition startsWith :: "string \<Rightarrow> string \<Rightarrow> bool" where
  "startsWith s p = (take (length p) s = p)"

text \<open>\<open>s.split(c)\<close> for a one-character separator; the result is never empty.\<close>

fun split_on :: "char \<Rightarrow> string \<Rightarrow> string list" where
  "split_on c [] = [[]]"
| "split_on c (x # xs) =
     (if x = c then [] # split_on c xs
      else (case split_on c xs of
              [] \<Rightarrow> [[x]]
            | y # ys \<Rightarrow> (x # y) # ys))"

definition is_space :: "char \<Rightarrow> bool" where
  "is_space c = (c = CHR '' '' \<or> c = CHR 0x09 \<or> c = CHR 0x0A \<or> c = CHR 0x0B
                 \<or> c = CHR 0x0C \<or> c = CHR 0x0D)"

text \<open>\<open>s.trim()\<close>.\<close>

definition trim :: "string \<Rightarrow> string" where
  "trim s = rev (dropWhile is_space (rev (dropWhile is_space s)))"

text \<open>\<open>x || null\<close> on an optional string: the empty string is falsy.\<close>

definition or_null :: "string option \<Rightarrow> string option" where
  "or_null x = (case x of None \<Rightarrow> None | Some s \<Rightarrow> if s = [] then None else Some s)"

text \<open>\<open>n.toString()\<close> of an integer.\<close>

fun digits :: "nat \<Rightarrow> string" where
  "digits n = (if n < 10 then [''0123456789'' ! n]
               else digits (n div 10) @ [''0123456789'' ! (n mod 10)])"

declare digits.simps [simp del]

definition toString :: "int \<Rightarrow> string" where
  "toString i = (if i < 0 then CHR ''-'' # digits (nat (- i)) else digits (nat i))"

text \<open>
  \<open>parseInt(s)\<close> in base ten: leading white space, an optional sign, then the longest
  run of digits; \<open>None\<close> is \<open>NaN\<close>. The hexadecimal prefix is not modelled.
\<close>

definition digit_val :: "char \<Rightarrow> nat option" where
  "digit_val c = map_of (zip ''0123456789'' [0, 1, 2, 3, 4, 5, 6, 7, 8, 9]) c"

fun parse_digits :: "nat \<Rightarrow> string \<Rightarrow> nat" where
  "parse_digits acc [] = acc"
| "parse_digits acc (c # cs) =
     (case digit_val c of
        None \<Rightarrow> acc
      | Some d \<Rightarrow> parse_digits (10 * acc + d) cs)"

definition parse_unsigned :: "string \<Rightarrow> int option" where
  "parse_unsigned u =
     (case u of
        [] \<Rightarrow> None
      | c # _ \<Rightarrow> (case digit_val c of
                    None \<Rightarrow> None
                  | Some _ \<Rightarrow> Some (int (parse_digits 0 u))))"

definition parseInt :: "string \<Rightarrow> int option" where
  "parseInt s =
     (case dropWhile is_space s of
        [] \<Rightarrow> None
      | c # r \<Rightarrow>
          if c = CHR ''-'' then map_option uminus (parse_unsigned r)
          else if c = CHR ''+'' then parse_unsigned r
          else parse_unsigned (c # r))"

text \<open>JavaScript's \<open>%\<close> on integers: the result has the sign of the dividend.\<close>

definition js_rem :: "int \<Rightarrow> int \<Rightarrow> int" where
  "js_rem a b = sgn a * (\<bar>a\<bar> mod \<bar>b\<bar>)"

section \<open>Configuration (identity.ts)\<close>

datatype strategy = JwtSub | SessionCookie | Ip

record GlobalLimits =
  minute :: int
  hour :: int
  day :: int
  month :: int

record Limits =
  global :: GlobalLimits

record Config =
  identityOrder :: "strategy list"
  jwtSecret :: "string option"
  limits :: Limits
  routesInScope :: "string list"
  turnstileEnabled :: "bool option"

text \<open>
  The file \<open>config/rate-limits.json\<close> as \<open>loadConfig\<close> sees it: \<open>statSync\<close> gives
  the modification time, and reading, \<open>JSON.parse\<close> and \<open>ConfigSchema.parse\<close> give
  either an exception or a configuration that passed the schema.
\<close>

datatype file_content = Unreadable | Malformed | Invalid_schema | Valid Config

record config_file =
  mtimeMs :: int
  content :: file_content

section \<open>The world a request runs in\<close>

text \<open>
  The shared store holds integer values with an optional expiry deadline (in
  milliseconds of the same clock). Every round trip is logged in \<open>oplog\<close>, and
  \<open>faults\<close> says which of the coming round trips throw (\<open>True\<close>); an empty list is a
  healthy store. The clock does not advance inside one call.
\<close>

datatype store_op =
    INCR string
  | EXPIRE string int
  | GET string
  | EXISTS string
  | SET_EX string "int option"
  | DEL string

record VerificationCache =
  token :: string
  verifiedAt :: int
  action :: "string option"

record world =
  clock :: int
  tz :: int
  config_source :: "config_file option"
  cachedConfig :: "Config option"
  configLastModified :: int
  redis_configured :: bool
  redis_data :: "string \<rightharpoonup> int"
  redis_deadline :: "string \<rightharpoonup> int"
  faults :: "bool list"
  oplog :: "store_op list"
  verificationCache :: "string \<rightharpoonup> VerificationCache"

datatype error = ConfigUnavailable | RedisEnvMissing | InvalidUrl

definition defaultConfig :: Config where
  "defaultConfig =
     \<lparr> identityOrder = [JwtSub, SessionCookie, Ip],
       jwtSecret = None,
       limits = \<lparr> global = \<lparr> minute = 10, hour = 100, day = 1000, month = 30000 \<rparr> \<rparr>,
       routesInScope = [''/api/proxy/projects'', ''/api/proxy/user''],
       turnstileEnabled = Some False \<rparr>"

text \<open>The reload inside the \<open>try\<close> block: read, parse, validate, then cache.\<close>

definition reloadConfig :: "config_file \<Rightarrow> world \<Rightarrow> (error + Config) \<times> world" where
  "reloadConfig f w =
     (case content f of
        Valid c \<Rightarrow> (Inr c, w\<lparr>cachedConfig := Some c, configLastModified := mtimeMs f\<rparr>)
      | _ \<Rightarrow> (Inl ConfigUnavailable, w))"

text \<open>The body of the \<open>try\<close> block of \<open>loadConfig\<close>; \<open>Inl\<close> is a thrown exception.\<close>

definition loadConfig_try :: "world \<Rightarrow> (error + Config) \<times> world" where
  "loadConfig_try w =
     (case config_source w of
        None \<Rightarrow> (Inl ConfigUnavailable, w)
      | Some stats \<Rightarrow>
          (case cachedConfig w of
             None \<Rightarrow> reloadConfig stats w
           | Some c \<Rightarrow>
               if mtimeMs stats > configLastModified w then reloadConfig stats w
               else (Inr c, w)))"

definition loadConfig :: "world \<Rightarrow> Config \<times> world" where
  "loadConfig w =
     (case loadConfig_try w of
        (Inr c, w') \<Rightarrow> (c, w')
      | (Inl e, w') \<Rightarrow> (defaultConfig, w'))"

definition getIdentityConfig :: "world \<Rightarrow> Config \<times> world" where
  "getIdentityConfig w = loadConfig w"

section \<open>Identity resolution (identity.ts)\<close>

text \<open>
  A request: the path of its URL (\<open>None\<close> when \<open>new URL\<close> throws), its headers, the
  connection address, and what \<open>cookies()\<close> of the framework gives for \<open>sessionId\<close>
  (\<open>Threw\<close> where \<open>cookies()\<close> is not available).
\<close>

record request =
  pathname :: "string option"
  req_headers :: "string \<rightharpoonup> string"
  ip :: "string option"
  next_cookies :: "string option reply"

record jwt_payload =
  sub :: "string option"

text \<open>
  The library calls the module makes, as parameters: \<open>jwtVerify token secret\<close> of jose
  (it throws unless signature and expiry verify), \<open>decodeJwt\<close> (it only parses),
  \<open>decodeURIComponent\<close>, and the SHA-256 digest in hexadecimal of
  \<open>crypto.subtle.digest\<close>.
\<close>

record libs =
  jwtVerify :: "string \<Rightarrow> string \<Rightarrow> jwt_payload reply"
  decodeJwt :: "string \<Rightarrow> jwt_payload reply"
  decodeURIComponent :: "string \<Rightarrow> string reply"
  sha256_hex :: "string \<Rightarrow> string reply"

text \<open>The inner \<open>try\<close> of \<open>extractJwtSubject\<close>: verification, when a secret is set.\<close>

definition verifyWithSecret :: "libs \<Rightarrow> Config \<Rightarrow> string \<Rightarrow> jwt_payload option" where
  "verifyWithSecret L config tok =
     (case jwtSecret config of
        None \<Rightarrow> None
      | Some secret \<Rightarrow>
          if secret = [] then None
          else (case jwtVerify L tok secret of
                  Reply payload \<Rightarrow> Some payload
                | Threw \<Rightarrow> None))"

definition extractJwtSubject :: "libs \<Rightarrow> request \<Rightarrow> world \<Rightarrow> string option \<times> world" where
  "extractJwtSubject L req w =
     (case req_headers req ''Authorization'' of
        None \<Rightarrow> (None, w)
      | Some authHeader \<Rightarrow>
          if authHeader \<noteq> [] \<and> startsWith authHeader ''Bearer '' then
            (let tok = drop 7 authHeader;
                 (config, w') = loadConfig w
             in case verifyWithSecret L config tok of
                  Some payload \<Rightarrow> (or_null (sub payload), w')
                | None \<Rightarrow>
                    (case decodeJwt L tok of
                       Reply decoded \<Rightarrow> (or_null (sub decoded), w')
                     | Threw \<Rightarrow> (None, w')))
          else (None, w))"

text \<open>The \<open>reduce\<close> over the cookies of the header; \<open>Threw\<close> when a value does not decode.\<close>

fun parseCookies :: "libs \<Rightarrow> string list \<Rightarrow> (string \<rightharpoonup> string) \<Rightarrow> (string \<rightharpoonup> string) reply" where
  "parseCookies L [] acc = Reply acc"
| "parseCookies L (cookie # rest) acc =
     (case split_on CHR ''='' (trim cookie) of
        name # val # _ \<Rightarrow>
          if name \<noteq> [] \<and> val \<noteq> [] then
            (case decodeURIComponent L val of
               Threw \<Rightarrow> Threw
             | Reply v \<Rightarrow> parseCookies L rest (acc(name \<mapsto> v)))
          else parseCookies L rest acc
      | _ \<Rightarrow> parseCookies L rest acc)"

definition extractSessionId :: "libs \<Rightarrow> request \<Rightarrow> string option" where
  "extractSessionId L req =
     (case (case next_cookies req of Reply v \<Rightarrow> or_null v | Threw \<Rightarrow> None) of
        Some v \<Rightarrow> Some v
      | None \<Rightarrow>
          (case or_null (req_headers req ''Cookie'') of
             None \<Rightarrow> None
           | Some cookieHeader \<Rightarrow>
               (case parseCookies L (split_on CHR '';'' cookieHeader) Map.empty of
                  Threw \<Rightarrow> None
                | Reply parsedCookies \<Rightarrow> or_null (parsedCookies ''sessionId''))))"

text \<open>The address that is hashed: the first truthy one of the chain, else \<open>127.0.0.1\<close>.\<close>

definition clientAddress :: "request \<Rightarrow> string" where
  "clientAddress req =
     (case or_null (case req_headers req ''x-forwarded-for'' of
                      None \<Rightarrow> None
                    | Some forwardedFor \<Rightarrow>
                        (case split_on CHR '','' forwardedFor of
                           [] \<Rightarrow> None
                         | a # _ \<Rightarrow> Some (trim a))) of
        Some a \<Rightarrow> a
      | None \<Rightarrow>
          (case or_null (req_headers req ''x-real-ip'') of
             Some a \<Rightarrow> a
           | None \<Rightarrow>
               (case or_null (req_headers req ''cf-connecting-ip'') of
                  Some a \<Rightarrow> a
                | None \<Rightarrow>
                    (case or_null (ip req) of
                       Some a \<Rightarrow> a
                     | None \<Rightarrow> ''127.0.0.1''))))"

definition extractHashedIp :: "libs \<Rightarrow> request \<Rightarrow> string" where
  "extractHashedIp L req =
     (case sha256_hex L (clientAddress req) of
        Reply hashHex \<Rightarrow> take 16 hashHex
      | Threw \<Rightarrow> ''unknown'')"

text \<open>The loop of \<open>getIdentityKey\<close> over the configured order.\<close>

fun identityWaterfall :: "libs \<Rightarrow> request \<Rightarrow> strategy list \<Rightarrow> world \<Rightarrow> string \<times> world" where
  "identityWaterfall L req [] w = (''anonymous'', w)"
| "identityWaterfall L req (JwtSub # order) w =
     (case extractJwtSubject L req w of
        (jwtSub, w') \<Rightarrow>
          (case or_null jwtSub of
             Some s \<Rightarrow> (''jwt:'' @ s, w')
           | None \<Rightarrow> identityWaterfall L req order w'))"
| "identityWaterfall L req (SessionCookie # order) w =
     (case or_null (extractSessionId L req) of
        Some s \<Rightarrow> (''session:'' @ s, w)
      | None \<Rightarrow> identityWaterfall L req order w)"
| "identityWaterfall L req (Ip # order) w = (''ip:'' @ extractHashedIp L req, w)"

definition getIdentityKey :: "libs \<Rightarrow> request \<Rightarrow> world \<Rightarrow> string \<times> world" where
  "getIdentityKey L req w =
     (case loadConfig w of
        (config, w') \<Rightarrow> identityWaterfall L req (identityOrder config) w')"

section \<open>The shared store\<close>

text \<open>A key is live when it holds a value whose deadline, if any, is still ahead.\<close>

definition live :: "world \<Rightarrow> string \<Rightarrow> bool" where
  "live w k =
     (case redis_data w k of
        None \<Rightarrow> False
      | Some _ \<Rightarrow> (case redis_deadline w k of None \<Rightarrow> True | Some d \<Rightarrow> clock w < d))"

definition redis_read :: "world \<Rightarrow> string \<Rightarrow> int option" where
  "redis_read w k = (if live w k then redis_data w k else None)"

text \<open>One round trip: the commands are logged, and the next fault, if any, is consumed.\<close>

definition round_trip :: "store_op list \<Rightarrow> world \<Rightarrow> bool \<times> world" where
  "round_trip ops w =
     (case faults w of
        [] \<Rightarrow> (False, w\<lparr>oplog := oplog w @ ops\<rparr>)
      | f # fs \<Rightarrow> (f, w\<lparr>oplog := oplog w @ ops, faults := fs\<rparr>))"

text \<open>
  The pipeline \<open>INCR key; EXPIRE key ttl\<close>, in one round trip. \<open>INCR\<close> starts a
  missing key at 1; \<open>EXPIRE\<close> with a time to live that is not positive deletes the key.
  The reply is the count \<open>INCR\<close> returned.
\<close>

definition redis_incr_expire :: "string \<Rightarrow> int \<Rightarrow> world \<Rightarrow> int reply \<times> world" where
  "redis_incr_expire k ttl w =
     (case round_trip [INCR k, EXPIRE k ttl] w of
        (True, w') \<Rightarrow> (Threw, w')
      | (False, w') \<Rightarrow>
          (let count = (case redis_read w' k of None \<Rightarrow> 1 | Some c \<Rightarrow> c + 1)
           in (Reply count,
               if ttl \<le> 0
               then w'\<lparr>redis_data := (redis_data w')(k := None),
                       redis_deadline := (redis_deadline w')(k := None)\<rparr>
               else w'\<lparr>redis_data := (redis_data w')(k \<mapsto> count),
                       redis_deadline := (redis_deadline w')(k \<mapsto> clock w' + ttl * 1000)\<rparr>)))"

definition redis_get :: "string \<Rightarrow> world \<Rightarrow> int option reply \<times> world" where
  "redis_get k w =
     (case round_trip [GET k] w of
        (True, w') \<Rightarrow> (Threw, w')
      | (False, w') \<Rightarrow> (Reply (redis_read w' k), w'))"

definition redis_exists :: "string \<Rightarrow> world \<Rightarrow> int reply \<times> world" where
  "redis_exists k w =
     (case round_trip [EXISTS k] w of
        (True, w') \<Rightarrow> (Threw, w')
      | (False, w') \<Rightarrow> (Reply (if live w' k then 1 else 0), w'))"

text \<open>
  \<open>SET key '1' EX ttl\<close>. The store rejects a time to live that is not a positive
  integer (\<open>None\<close> is \<open>NaN\<close>), and the client throws.
\<close>

definition redis_set_ex :: "string \<Rightarrow> int option \<Rightarrow> world \<Rightarrow> unit reply \<times> world" where
  "redis_set_ex k ttl w =
     (case round_trip [SET_EX k ttl] w of
        (True, w') \<Rightarrow> (Threw, w')
      | (False, w') \<Rightarrow>
          (case ttl of
             None \<Rightarrow> (Threw, w')
           | Some t \<Rightarrow>
               if t \<le> 0 then (Threw, w')
               else (Reply (),
                     w'\<lparr>redis_data := (redis_data w')(k \<mapsto> 1),
                        redis_deadline := (redis_deadline w')(k \<mapsto> clock w' + t * 1000)\<rparr>)))"

definition redis_del :: "string \<Rightarrow> world \<Rightarrow> unit reply \<times> world" where
  "redis_del k w =
     (case round_trip [DEL k] w of
        (True, w') \<Rightarrow> (Threw, w')
      | (False, w') \<Rightarrow>
          (Reply (),
           w'\<lparr>redis_data := (redis_data w')(k := None),
              redis_deadline := (redis_deadline w')(k := None)\<rparr>))"

section \<open>The rate limiter\<close>

record RateLimitResult =
  allowed :: bool
  headers :: "(string \<times> string) list"
  remaining :: int
  resetTime :: int
  limit :: int
  window :: string

text \<open>\<open>Math.floor(Date.now() / 1000)\<close>.\<close>

definition getCurrentTimestamp :: "world \<Rightarrow> int" where
  "getCurrentTimestamp w = clock w div 1000"

text \<open>
  The day of the month (1 to 31) of a day counted from 1970-01-01, in the proleptic
  Gregorian calendar, as \<open>Date\<close> computes it.
\<close>

definition day_of_month :: "int \<Rightarrow> int" where
  "day_of_month days =
     (let z = days + 719468;
          doe = z mod 146097;
          yoe = (doe - doe div 1460 + doe div 36524 - doe div 146096) div 365;
          doy = doe - (365 * yoe + yoe div 4 - yoe div 100);
          mp = (5 * doy + 2) div 153
      in doy - (153 * mp + 2) div 5 + 1)"

text \<open>
  \<open>new Date(date.getFullYear(), date.getMonth(), 1)\<close> in epoch seconds: local
  midnight of the first day of the month, for a local time \<open>offset\<close> seconds ahead
  of UTC.
\<close>

definition startOfMonth :: "int \<Rightarrow> int \<Rightarrow> int" where
  "startOfMonth offset timestamp =
     (let days = (timestamp + offset) div 86400
      in (days - (day_of_month days - 1)) * 86400 - offset)"

definition getWindowStart :: "int \<Rightarrow> string \<Rightarrow> int \<Rightarrow> int" where
  "getWindowStart offset windowType timestamp =
     (if windowType = ''minute'' then timestamp - js_rem timestamp 60
      else if windowType = ''hour'' then timestamp - js_rem timestamp 3600
      else if windowType = ''day'' then timestamp - js_rem timestamp 86400
      else if windowType = ''month'' then startOfMonth offset timestamp
      else timestamp)"

definition ttlMap :: "string \<rightharpoonup> int" where
  "ttlMap = [''minute'' \<mapsto> 60, ''hour'' \<mapsto> 3600, ''day'' \<mapsto> 86400, ''month'' \<mapsto> 2592000]"

definition getResetTime :: "string \<Rightarrow> int \<Rightarrow> int" where
  "getResetTime windowType windowStart =
     windowStart + (case ttlMap windowType of None \<Rightarrow> 60 | Some d \<Rightarrow> d)"

definition generateRedisKey :: "string \<Rightarrow> string \<Rightarrow> int \<Rightarrow> string" where
  "generateRedisKey identityKey win windowStart =
     ''rate:'' @ win @ '':'' @ toString windowStart @ '':'' @ identityKey"

text \<open>
  \<open>checkWindowLimit\<close>. \<open>getRedisClient\<close> is called before the \<open>try\<close> block, so a
  missing store configuration is thrown to the caller (\<open>Inl\<close>); a failing round trip is
  caught inside.
\<close>

definition checkWindowLimit ::
    "string \<Rightarrow> string \<Rightarrow> int \<Rightarrow> string \<Rightarrow> world \<Rightarrow> (error + RateLimitResult) \<times> world" where
  "checkWindowLimit identityKey win lim path w =
     (if \<not> redis_configured w then (Inl RedisEnvMissing, w)
      else
        (let timestamp = getCurrentTimestamp w;
             windowStart = getWindowStart (tz w) win timestamp;
             reset = getResetTime win windowStart;
             redisKey = generateRedisKey identityKey win windowStart
         in case redis_incr_expire redisKey (reset - timestamp) w of
              (Reply count, w') \<Rightarrow>
                (let ok = (count \<le> lim);
                     left = max 0 (lim - count)
                 in (Inr \<lparr> allowed = ok,
                            headers =
                              [(''X-RateLimit-Limit'', toString lim),
                               (''X-RateLimit-Remaining'', toString left),
                               (''X-RateLimit-Reset'', toString reset),
                               (''X-RateLimit-Window'', win)]
                              @ (if ok then []
                                 else [(''Retry-After'', toString (reset - timestamp))]),
                            remaining = left,
                            resetTime = reset,
                            limit = lim,
                            window = win \<rparr>, w'))
            | (Threw, w') \<Rightarrow>
                (Inr \<lparr> allowed = True,
                       headers =
                         [(''X-RateLimit-Limit'', toString lim),
                          (''X-RateLimit-Remaining'', toString lim),
                          (''X-RateLimit-Reset'', toString (timestamp + 60)),
                          (''X-RateLimit-Window'', win),
                          (''X-RateLimit-Error'', ''redis-unavailable'')],
                       remaining = lim,
                       resetTime = timestamp + 60,
                       limit = lim,
                       window = win \<rparr>, w')))"

definition isRouteInScope :: "string \<Rightarrow> world \<Rightarrow> bool \<times> world" where
  "isRouteInScope path w =
     (case getIdentityConfig w of
        (config, w') \<Rightarrow> (list_ex (\<lambda>route. startsWith path route) (routesInScope config), w'))"

text \<open>\<open>limits[window]\<close> for the four window names.\<close>

definition limit_of :: "GlobalLimits \<Rightarrow> string \<Rightarrow> int" where
  "limit_of lims win =
     (if win = ''minute'' then minute lims
      else if win = ''hour'' then hour lims
      else if win = ''day'' then day lims
      else if win = ''month'' then month lims
      else 0)"

text \<open>Setting a property of a headers object: replace it in place, or add it at the end.\<close>

fun set_header :: "string \<Rightarrow> string \<Rightarrow> (string \<times> string) list \<Rightarrow> (string \<times> string) list" where
  "set_header k v [] = [(k, v)]"
| "set_header k v (p # ps) = (if fst p = k then (k, v) # ps else p # set_header k v ps)"

text \<open>\<open>identityKey.split(':')[0]\<close>.\<close>

definition identityKind :: "string \<Rightarrow> string" where
  "identityKind identityKey = (case split_on CHR '':'' identityKey of [] \<Rightarrow> [] | k # _ \<Rightarrow> k)"

text \<open>
  The loop of \<open>applyRateLimit\<close> over the windows: \<open>Inr (Some r)\<close> is the early return
  of a denied window, \<open>Inr None\<close> says that every window passed.
\<close>

fun checkWindows ::
    "string \<Rightarrow> string \<Rightarrow> GlobalLimits \<Rightarrow> string list \<Rightarrow> world
      \<Rightarrow> (error + RateLimitResult option) \<times> world" where
  "checkWindows identityKey path lims [] w = (Inr None, w)"
| "checkWindows identityKey path lims (win # rest) w =
     (if limit_of lims win \<noteq> 0 then
        (case checkWindowLimit identityKey win (limit_of lims win) path w of
           (Inl e, w') \<Rightarrow> (Inl e, w')
         | (Inr result, w') \<Rightarrow>
             if \<not> allowed result then
               (Inr (Some (result\<lparr>headers :=
                  set_header ''X-RateLimit-Identity'' (identityKind identityKey) (headers result)\<rparr>)),
                w')
             else checkWindows identityKey path lims rest w')
      else checkWindows identityKey path lims rest w)"

text \<open>The remaining count and reset time read back from the minute window.\<close>

definition actualRemainingAndReset :: "string \<Rightarrow> GlobalLimits \<Rightarrow> world \<Rightarrow> (int \<times> int) \<times> world" where
  "actualRemainingAndReset identityKey lims w =
     (if minute lims \<noteq> 0 then
        (if \<not> redis_configured w then ((minute lims, getCurrentTimestamp w + 60), w)
         else
           (let timestamp = getCurrentTimestamp w;
                windowStart = getWindowStart (tz w) ''minute'' timestamp;
                redisKey = generateRedisKey identityKey ''minute'' windowStart
            in case redis_get redisKey w of
                 (Reply currentCount, w') \<Rightarrow>
                   ((max 0 (minute lims - (case currentCount of None \<Rightarrow> 0 | Some c \<Rightarrow> c)),
                     getResetTime ''minute'' windowStart), w')
               | (Threw, w') \<Rightarrow> ((minute lims, getCurrentTimestamp w + 60), w')))
      else ((999999, getCurrentTimestamp w + 60), w))"

definition excludedResult :: "world \<Rightarrow> RateLimitResult" where
  "excludedResult w =
     \<lparr> allowed = True,
       headers = [(''X-RateLimit-Scope'', ''excluded'')],
       remaining = 999999,
       resetTime = getCurrentTimestamp w + 3600,
       limit = 999999,
       window = ''none'' \<rparr>"

definition systemErrorResult :: "world \<Rightarrow> RateLimitResult" where
  "systemErrorResult w =
     \<lparr> allowed = True,
       headers = [(''X-RateLimit-Error'', ''system-error'')],
       remaining = 999999,
       resetTime = getCurrentTimestamp w + 3600,
       limit = 999999,
       window = ''error'' \<rparr>"

text \<open>The body of the \<open>try\<close> block of \<open>applyRateLimit\<close>.\<close>

definition applyRateLimit_try :: "libs \<Rightarrow> request \<Rightarrow> world \<Rightarrow> (error + RateLimitResult) \<times> world" where
  "applyRateLimit_try L req w =
     (case pathname req of
        None \<Rightarrow> (Inl InvalidUrl, w)
      | Some path \<Rightarrow>
          (case isRouteInScope path w of
             (False, w1) \<Rightarrow> (Inr (excludedResult w1), w1)
           | (True, w1) \<Rightarrow>
               (case getIdentityKey L req w1 of
                  (identityKey, w2) \<Rightarrow>
                    (case getIdentityConfig w2 of
                       (config, w3) \<Rightarrow>
                         (let lims = global (limits config)
                          in case checkWindows identityKey path lims
                                    [''minute'', ''hour'', ''day'', ''month''] w3 of
                               (Inl e, w4) \<Rightarrow> (Inl e, w4)
                             | (Inr (Some denied), w4) \<Rightarrow> (Inr denied, w4)
                             | (Inr None, w4) \<Rightarrow>
                                 (case actualRemainingAndReset identityKey lims w4 of
                                    ((actualRemaining, actualResetTime), w5) \<Rightarrow>
                                      (let shown = (if minute lims \<noteq> 0 then minute lims else 999999)
                                       in (Inr \<lparr> allowed = True,
                                                  headers =
                                                    [(''X-RateLimit-Limit'', toString shown),
                                                     (''X-RateLimit-Remaining'', toString actualRemaining),
                                                     (''X-RateLimit-Reset'', toString actualResetTime),
                                                     (''X-RateLimit-Window'', ''minute''),
                                                     (''X-RateLimit-Identity'', identityKind identityKey)],
                                                  remaining = actualRemaining,
                                                  resetTime = actualResetTime,
                                                  limit = shown,
                                                  window = ''minute'' \<rparr>, w5))))))))"

definition applyRateLimit :: "libs \<Rightarrow> request \<Rightarrow> world \<Rightarrow> RateLimitResult \<times> world" where
  "applyRateLimit L req w =
     (case applyRateLimit_try L req w of
        (Inr result, w') \<Rightarrow> (result, w')
      | (Inl e, w') \<Rightarrow> (systemErrorResult w', w'))"

text \<open>\<open>enforceRateLimit\<close> throws a \<open>RateLimitError\<close> carrying the result when denied.\<close>

definition enforceRateLimit ::
    "libs \<Rightarrow> request \<Rightarrow> world \<Rightarrow> (RateLimitResult + (string \<times> string) list) \<times> world" where
  "enforceRateLimit L req w =
     (case applyRateLimit L req w of
        (result, w') \<Rightarrow>
          if \<not> allowed result then (Inl result, w') else (Inr (headers result), w'))"

section \<open>The verification gate (turnstile-verification.ts)\<close>

text \<open>The environment variables the gate reads.\<close>

record environment =
  TURNSTILE_ENABLED :: "string option"
  TURNSTILE_BYPASS_AUTHENTICATED :: "string option"
  TURNSTILE_REQUIRED_FOR_IP_USERS :: "string option"
  TURNSTILE_CACHE_DURATION :: "string option"
  NEXT_PUBLIC_TURNSTILE_SITE_KEY :: "string option"

text \<open>\<open>cacheDuration\<close> is in milliseconds; \<open>None\<close> is \<open>NaN\<close>.\<close>

record TurnstileConfig =
  enabled :: bool
  bypassAuthenticated :: bool
  requiredForIPUsers :: bool
  cacheDuration :: "int option"
  siteKey :: "string option"

definition getTurnstileConfig :: "environment \<Rightarrow> TurnstileConfig" where
  "getTurnstileConfig env =
     \<lparr> enabled = (TURNSTILE_ENABLED env = Some ''true''),
       bypassAuthenticated = (TURNSTILE_BYPASS_AUTHENTICATED env \<noteq> Some ''false''),
       requiredForIPUsers = (TURNSTILE_REQUIRED_FOR_IP_USERS env \<noteq> Some ''false''),
       cacheDuration =
         map_option (\<lambda>n. n * 1000)
           (parseInt (case or_null (TURNSTILE_CACHE_DURATION env) of
                        None \<Rightarrow> ''300''
                      | Some s \<Rightarrow> s)),
       siteKey = NEXT_PUBLIC_TURNSTILE_SITE_KEY env \<rparr>"

definition isTurnstileRequired :: "environment \<Rightarrow> string \<Rightarrow> request \<Rightarrow> bool" where
  "isTurnstileRequired env identityKey req =
     (let config = getTurnstileConfig env
      in if \<not> enabled config then False
         else if bypassAuthenticated config \<and> startsWith identityKey ''jwt:'' then False
         else if bypassAuthenticated config \<and> startsWith identityKey ''session:'' then False
         else if startsWith identityKey ''ip:'' \<and> requiredForIPUsers config then True
         else False)"

definition getCacheKey :: "string \<Rightarrow> string" where
  "getCacheKey identityKey = ''turnstile:verified:'' @ identityKey"

text \<open>
  The first step of \<open>hasValidCachedVerification\<close>: the store answers that the record
  exists. No client (the store is not configured), an exception and the answer 0 all
  give \<open>False\<close>, and the in-memory map is looked at next.
\<close>

definition storeConfirms :: "string \<Rightarrow> world \<Rightarrow> bool \<times> world" where
  "storeConfirms cacheKey w =
     (if redis_configured w then
        (case redis_exists cacheKey w of
           (Reply n, w') \<Rightarrow> (n = 1, w')
         | (Threw, w') \<Rightarrow> (False, w'))
      else (False, w))"

definition hasValidCachedVerification :: "environment \<Rightarrow> string \<Rightarrow> world \<Rightarrow> bool \<times> world" where
  "hasValidCachedVerification env identityKey w =
     (let config = getTurnstileConfig env;
          cacheKey = getCacheKey identityKey
      in case storeConfirms cacheKey w of
           (True, w') \<Rightarrow> (True, w')
         | (False, w') \<Rightarrow>
             (case verificationCache w' cacheKey of
                None \<Rightarrow> (False, w')
              | Some cached \<Rightarrow>
                  (let isValid = (case cacheDuration config of
                                    None \<Rightarrow> False
                                  | Some d \<Rightarrow> clock w' - verifiedAt cached < d)
                   in if \<not> isValid
                      then (False, w'\<lparr>verificationCache := (verificationCache w')(cacheKey := None)\<rparr>)
                      else (True, w'))))"

definition isIdentityVerified :: "environment \<Rightarrow> string \<Rightarrow> world \<Rightarrow> bool \<times> world" where
  "isIdentityVerified env identityKey w = hasValidCachedVerification env identityKey w"

text \<open>\<open>Math.max(1, Math.floor(cacheDuration / 1000))\<close>.\<close>

definition ttlSeconds :: "TurnstileConfig \<Rightarrow> int option" where
  "ttlSeconds config = map_option (\<lambda>d. max 1 (d div 1000)) (cacheDuration config)"

definition cacheVerification ::
    "environment \<Rightarrow> string \<Rightarrow> string \<Rightarrow> string option \<Rightarrow> world \<Rightarrow> world" where
  "cacheVerification env identityKey tok act w =
     (let cacheKey = getCacheKey identityKey;
          now = clock w;
          w' = (if redis_configured w
                then snd (redis_set_ex cacheKey (ttlSeconds (getTurnstileConfig env)) w)
                else w)
      in w'\<lparr>verificationCache :=
              (verificationCache w')(cacheKey \<mapsto> \<lparr> token = tok, verifiedAt = now, action = act \<rparr>)\<rparr>)"

definition clearVerificationCache :: "string \<Rightarrow> world \<Rightarrow> world" where
  "clearVerificationCache identityKey w =
     (let cacheKey = getCacheKey identityKey;
          w' = (if redis_configured w then snd (redis_del cacheKey w) else w)
      in w'\<lparr>verificationCache := (verificationCache w')(cacheKey := None)\<rparr>)"

record TurnstileVerificationResult =
  verified :: bool
  required :: bool
  err :: "string option"
  bypassReason :: "string option"

definition applyTurnstileVerification ::
    "environment \<Rightarrow> request \<Rightarrow> string \<Rightarrow> world \<Rightarrow> TurnstileVerificationResult \<times> world" where
  "applyTurnstileVerification env req identityKey w =
     (let config = getTurnstileConfig env
      in if \<not> enabled config
         then (\<lparr> verified = True, required = False, err = None,
                  bypassReason = Some ''disabled'' \<rparr>, w)
         else if \<not> isTurnstileRequired env identityKey req
         then (\<lparr> verified = True, required = False, err = None,
                  bypassReason =
                    Some (if startsWith identityKey ''jwt:'' \<or> startsWith identityKey ''session:''
                          then ''authenticated'' else ''disabled'') \<rparr>, w)
         else (case hasValidCachedVerification env identityKey w of
                 (True, w') \<Rightarrow>
                   (\<lparr> verified = True, required = True, err = None,
                      bypassReason = Some ''cached'' \<rparr>, w')
               | (False, w') \<Rightarrow>
                   (\<lparr> verified = False, required = True,
                      err = Some ''Turnstile verification required - please complete the security challenge'',
                      bypassReason = None \<rparr>, w')))"

text \<open>The passing of time between two calls.\<close>

definition advance :: "int \<Rightarrow> world \<Rightarrow> world" where
  "advance ms w = w\<lparr>clock := clock w + ms\<rparr>"

section \<open>Observations and example inputs\<close>

text \<open>The count the next \<open>INCR\<close> of a key returns.\<close>

definition nextCount :: "world \<Rightarrow> string \<Rightarrow> int" where
  "nextCount w k = (case redis_read w k of None \<Rightarrow> 1 | Some c \<Rightarrow> c + 1)"

text \<open>The counter key and the expression \<open>resetTime - timestamp\<close> of \<open>checkWindowLimit\<close>.\<close>

definition windowKey :: "string \<Rightarrow> string \<Rightarrow> world \<Rightarrow> string" where
  "windowKey identityKey win w =
     generateRedisKey identityKey win (getWindowStart (tz w) win (getCurrentTimestamp w))"

definition timeLeft :: "string \<Rightarrow> world \<Rightarrow> int" where
  "timeLeft win w =
     getResetTime win (getWindowStart (tz w) win (getCurrentTimestamp w)) - getCurrentTimestamp w"

text \<open>The world after \<open>n\<close> successive checks of one window for one identity.\<close>

fun afterRequests :: "nat \<Rightarrow> string \<Rightarrow> string \<Rightarrow> int \<Rightarrow> string \<Rightarrow> world \<Rightarrow> world" where
  "afterRequests 0 identityKey win lim path w = w"
| "afterRequests (Suc n) identityKey win lim path w =
     afterRequests n identityKey win lim path (snd (checkWindowLimit identityKey win lim path w))"

text \<open>
  A process in UTC at the given time, with no configuration file, an empty and healthy
  store and an empty verification cache.
\<close>

definition freshWorld :: "int \<Rightarrow> world" where
  "freshWorld now =
     \<lparr> clock = now, tz = 0, config_source = None, cachedConfig = None,
       configLastModified = 0, redis_configured = True, redis_data = Map.empty,
       redis_deadline = Map.empty, faults = [], oplog = [],
       verificationCache = Map.empty \<rparr>"

text \<open>
  Libraries for the examples: no token verifies or decodes, cookie values decode to
  themselves, and the digest is the SHA-256 of \<open>127.0.0.1\<close>.
\<close>

definition plainLibs :: libs where
  "plainLibs =
     \<lparr> jwtVerify = (\<lambda>tok secret. Threw),
       decodeJwt = (\<lambda>tok. Threw),
       decodeURIComponent = (\<lambda>s. Reply s),
       sha256_hex =
         (\<lambda>s. Reply ''12ca17b49af2289436f303e0166030a21e525d266e209267433801a8fd4071a0'') \<rparr>"

text \<open>A request for a path, with no headers, no cookies and no connection address.\<close>

definition bareRequest :: "string \<Rightarrow> request" where
  "bareRequest path =
     \<lparr> pathname = Some path, req_headers = Map.empty, ip = None, next_cookies = Threw \<rparr>"

text \<open>The store is down: each of the next five round trips throws.\<close>

definition storeDown :: "int \<Rightarrow> world" where
  "storeDown now = (freshWorld now)\<lparr>faults := [True, True, True, True, True]\<rparr>"

text \<open>
  One failing round trip, then a healthy store in which the hour counter of the
  example identity already stands at the default hour limit.
\<close>

definition storeHiccup :: "int \<Rightarrow> world" where
  "storeHiccup now =
     (freshWorld now)
       \<lparr>faults := [True],
        redis_data := [generateRedisKey ''ip:12ca17b49af22894'' ''hour'' 1738324800 \<mapsto> 100]\<rparr>"

text \<open>
  The read of the configuration fails: the file cannot be inspected, or it has to be
  read again (nothing is cached, or the file is newer) and does not give a valid
  configuration.
\<close>

definition is_valid :: "file_content \<Rightarrow> bool" where
  "is_valid c = (case c of Valid _ \<Rightarrow> True | _ \<Rightarrow> False)"

definition sourceFails :: "world \<Rightarrow> bool" where
  "sourceFails w =
     (case config_source w of
        None \<Rightarrow> True
      | Some f \<Rightarrow>
          (cachedConfig w = None \<or> configLastModified w < mtimeMs f) \<and> \<not> is_valid (content f))"

text \<open>A configuration with a verification secret, and a world that has loaded it.\<close>

definition securedConfig :: Config where
  "securedConfig = defaultConfig\<lparr>jwtSecret := Some ''s3cret''\<rparr>"

definition securedWorld :: "int \<Rightarrow> world" where
  "securedWorld now =
     (freshWorld now)
       \<lparr>config_source := Some \<lparr> mtimeMs = 1, content = Valid securedConfig \<rparr>,
        cachedConfig := Some securedConfig,
        configLastModified := 1\<rparr>"

text \<open>The same world after the file was rewritten with text that is not JSON.\<close>

definition brokenReload :: "int \<Rightarrow> world" where
  "brokenReload now =
     (securedWorld now)\<lparr>config_source := Some \<lparr> mtimeMs = 2, content = Malformed \<rparr>\<rparr>"

text \<open>
  A forged token: its signature verifies against no secret, but its payload decodes
  and names the subject \<open>admin\<close>.
\<close>

definition forgedLibs :: libs where
  "forgedLibs =
     plainLibs\<lparr>decodeJwt :=
       (\<lambda>tok. if tok = ''forged'' then Reply \<lparr> sub = Some ''admin'' \<rparr> else Threw)\<rparr>"

definition bearerRequest :: "string \<Rightarrow> string \<Rightarrow> request" where
  "bearerRequest path tok =
     (bareRequest path)\<lparr>req_headers := [''Authorization'' \<mapsto> ''Bearer '' @ tok]\<rparr>"

text \<open>Libraries whose digest throws.\<close>

definition noDigestLibs :: libs where
  "noDigestLibs = plainLibs\<lparr>sha256_hex := (\<lambda>s. Threw)\<rparr>"

text \<open>
  The store is reachable: it is configured and the next round trip does not throw.
\<close>

definition storeReachable :: "world \<Rightarrow> bool" where
  "storeReachable w =
     (redis_configured w \<and> (case faults w of [] \<Rightarrow> True | f # _ \<Rightarrow> \<not> f))"

text \<open>The in-memory map holds a record of the identity that has not expired.\<close>

definition memoryValid :: "environment \<Rightarrow> string \<Rightarrow> world \<Rightarrow> bool" where
  "memoryValid env identityKey w =
     (case verificationCache w (getCacheKey identityKey) of
        None \<Rightarrow> False
      | Some cached \<Rightarrow>
          (case cacheDuration (getTurnstileConfig env) of
             None \<Rightarrow> False
           | Some d \<Rightarrow> clock w - verifiedAt cached < d))"

text \<open>The gate switched on, every other variable unset.\<close>

definition gateEnv :: environment where
  "gateEnv =
     \<lparr> TURNSTILE_ENABLED = Some ''true'',
       TURNSTILE_BYPASS_AUTHENTICATED = None,
       TURNSTILE_REQUIRED_FOR_IP_USERS = None,
       TURNSTILE_CACHE_DURATION = None,
       NEXT_PUBLIC_TURNSTILE_SITE_KEY = None \<rparr>"

text \<open>
  A verification recorded while the store's round trip failed: the record is in the
  in-memory map only, and the store is healthy again afterwards.
\<close>

definition memoryOnlyWorld :: "int \<Rightarrow> world" where
  "memoryOnlyWorld now =
     cacheVerification gateEnv ''ip:abc'' ''tok'' None ((freshWorld now)\<lparr>faults := [True]\<rparr>)"

section \<open>Properties of the rate limiter\<close>

subsection \<open>Arithmetic of the windows\<close>

lemma js_rem_less: "0 < d \<Longrightarrow> js_rem t d < d"
proof (cases "t < 0")
  case True
  assume d: "0 < d"
  have "- ((- t) mod d) < d"
    using pos_mod_sign [of d "- t"] d by linarith
  moreover have "js_rem t d = - ((- t) mod d)"
    using True d by (simp add: js_rem_def)
  ultimately show ?thesis
    by (simp only:)
next
  case False
  assume d: "0 < d"
  have "t mod d < d"
    using d by simp
  moreover have "js_rem t d = t mod d"
    using False d by (cases "t = 0") (simp_all add: js_rem_def)
  ultimately show ?thesis
    by (simp only:)
qed

lemma js_rem_nonneg: "0 \<le> t \<Longrightarrow> 0 < d \<Longrightarrow> js_rem t d = t mod d"
  by (auto simp: js_rem_def sgn_if)

lemma short_windows:
  "ttlMap win = Some d \<Longrightarrow> win \<noteq> ''month'' \<Longrightarrow>
   0 < d \<and> getWindowStart off win ts = ts - js_rem ts d \<and> getResetTime win ws = ws + d"
  by (auto simp: ttlMap_def getWindowStart_def getResetTime_def split: if_splits)

lemma timeLeft_short:
  assumes "ttlMap win = Some d" "win \<noteq> ''month''"
  shows "timeLeft win w = d - js_rem (getCurrentTimestamp w) d"
  using short_windows [OF assms] by (simp add: timeLeft_def)

lemma timeLeft_positive:
  assumes "ttlMap win = Some d" "win \<noteq> ''month''"
  shows "0 < timeLeft win w"
  using short_windows [OF assms, of 0 0 0] js_rem_less [of d "getCurrentTimestamp w"]
  by (simp add: timeLeft_short [OF assms])

lemma month_start_jan31: "startOfMonth 0 1738324800 = 1735689600"
  by code_simp

subsection \<open>The store\<close>

lemma live_oplog [simp]: "live (w\<lparr>oplog := l\<rparr>) k = live w k"
  by (simp add: live_def split: option.split)

lemma redis_read_oplog [simp]: "redis_read (w\<lparr>oplog := l\<rparr>) k = redis_read w k"
  by (simp add: redis_read_def)

lemma incr_expire_oplog:
  "oplog (snd (redis_incr_expire k ttl w)) = oplog w @ [INCR k, EXPIRE k ttl]"
  by (simp add: redis_incr_expire_def round_trip_def Let_def split: list.split bool.split)

lemma incr_expire_healthy:
  "faults w = [] \<Longrightarrow>
   redis_incr_expire k ttl w =
     (Reply (case redis_read w k of None \<Rightarrow> 1 | Some c \<Rightarrow> c + 1),
      if ttl \<le> 0
      then w\<lparr>oplog := oplog w @ [INCR k, EXPIRE k ttl],
             redis_data := (redis_data w)(k := None),
             redis_deadline := (redis_deadline w)(k := None)\<rparr>
      else w\<lparr>oplog := oplog w @ [INCR k, EXPIRE k ttl],
             redis_data := (redis_data w)(k \<mapsto> (case redis_read w k of None \<Rightarrow> 1 | Some c \<Rightarrow> c + 1)),
             redis_deadline := (redis_deadline w)(k \<mapsto> clock w + ttl * 1000)\<rparr>)"
  by (simp add: redis_incr_expire_def round_trip_def Let_def)

subsection \<open>One window\<close>

lemma checkWindowLimit_oplog:
  "redis_configured w \<Longrightarrow>
   oplog (snd (checkWindowLimit idk win lim path w)) =
     oplog w @ [INCR (windowKey idk win w), EXPIRE (windowKey idk win w) (timeLeft win w)]"
  using incr_expire_oplog
  by (simp add: checkWindowLimit_def windowKey_def timeLeft_def Let_def split: prod.split reply.split)
     (metis snd_conv)

lemma checkWindowLimit_healthy:
  assumes "redis_configured w" "faults w = []"
  shows "fst (checkWindowLimit idk win lim path w) =
           Inr \<lparr> allowed = (nextCount w (windowKey idk win w) \<le> lim),
                  headers =
                    [(''X-RateLimit-Limit'', toString lim),
                     (''X-RateLimit-Remaining'', toString (max 0 (lim - nextCount w (windowKey idk win w)))),
                     (''X-RateLimit-Reset'', toString (getCurrentTimestamp w + timeLeft win w)),
                     (''X-RateLimit-Window'', win)]
                    @ (if nextCount w (windowKey idk win w) \<le> lim then []
                       else [(''Retry-After'', toString (timeLeft win w))]),
                  remaining = max 0 (lim - nextCount w (windowKey idk win w)),
                  resetTime = getCurrentTimestamp w + timeLeft win w,
                  limit = lim,
                  window = win \<rparr>"
  using assms
  by (simp add: checkWindowLimit_def incr_expire_healthy nextCount_def windowKey_def timeLeft_def Let_def)

lemma checkWindowLimit_counts:
  assumes "redis_configured w" "faults w = []" "0 < timeLeft win w"
  shows "nextCount (snd (checkWindowLimit idk win lim path w)) (windowKey idk win w) =
           nextCount w (windowKey idk win w) + 1"
    and "clock (snd (checkWindowLimit idk win lim path w)) = clock w"
    and "tz (snd (checkWindowLimit idk win lim path w)) = tz w"
    and "faults (snd (checkWindowLimit idk win lim path w)) = []"
    and "redis_configured (snd (checkWindowLimit idk win lim path w))"
  using assms
  by (simp_all add: checkWindowLimit_def incr_expire_healthy nextCount_def windowKey_def timeLeft_def
      Let_def redis_read_def live_def)

lemma checkWindowLimit_frame:
  assumes "redis_configured w" "faults w = []" "0 < timeLeft win w"
  shows "windowKey idk win (snd (checkWindowLimit idk win lim path w)) = windowKey idk win w"
    and "timeLeft win (snd (checkWindowLimit idk win lim path w)) = timeLeft win w"
  using checkWindowLimit_counts(2,3) [OF assms, of idk lim path]
  by (simp_all add: windowKey_def timeLeft_def getCurrentTimestamp_def)

lemma afterRequests_counts:
  assumes "redis_configured w" "faults w = []" "0 < timeLeft win w"
  shows "nextCount (afterRequests n idk win lim path w) (windowKey idk win w) =
           nextCount w (windowKey idk win w) + int n
         \<and> redis_configured (afterRequests n idk win lim path w)
         \<and> faults (afterRequests n idk win lim path w) = []
         \<and> clock (afterRequests n idk win lim path w) = clock w
         \<and> tz (afterRequests n idk win lim path w) = tz w"
  using assms
proof (induction n arbitrary: w)
  case 0
  then show ?case by simp
next
  case (Suc n)
  let ?w = "snd (checkWindowLimit idk win lim path w)"
  note step = checkWindowLimit_counts [OF Suc.prems, of idk lim path]
    and frame = checkWindowLimit_frame [OF Suc.prems, of idk lim path]
  have "0 < timeLeft win ?w"
    using frame(2) Suc.prems(3) by simp
  from Suc.IH [OF step(5) step(4) this] show ?case
    using step(1,2,3) frame by simp
qed

lemma afterRequests_frame:
  assumes "redis_configured w" "faults w = []" "0 < timeLeft win w"
  shows "windowKey idk win (afterRequests n idk win lim path w) = windowKey idk win w"
    and "timeLeft win (afterRequests n idk win lim path w) = timeLeft win w"
    and "getCurrentTimestamp (afterRequests n idk win lim path w) = getCurrentTimestamp w"
  using afterRequests_counts [OF assms, where n = n and idk = idk and lim = lim and path = path]
  by (simp_all add: windowKey_def timeLeft_def getCurrentTimestamp_def)

text \<open>
  For the minute, hour and day windows the counter enforces the limit: on a healthy
  store, starting from a window with no counter, request \<open>n + 1\<close> sees the count
  \<open>n + 1\<close>; it is allowed with \<open>remaining = N - count\<close> while the count is at most
  \<open>N\<close>, and request \<open>N + 1\<close> is denied with \<open>remaining = 0\<close> and a positive
  \<open>Retry-After\<close> equal to \<open>resetTime - now\<close>.
\<close>

lemma short_window_enforced:
  assumes "redis_configured w" "faults w = []" "ttlMap win = Some d" "win \<noteq> ''month''"
    and "redis_read w (windowKey idk win w) = None"
    and "fst (checkWindowLimit idk win N path (afterRequests n idk win N path w)) = Inr r"
  shows "int n + 1 \<le> N \<Longrightarrow> allowed r \<and> remaining r = N - (int n + 1)"
    and "int n = N \<Longrightarrow>
           \<not> allowed r \<and> remaining r = 0
           \<and> map_of (headers r) ''Retry-After'' = Some (toString (resetTime r - getCurrentTimestamp w))
           \<and> 0 < resetTime r - getCurrentTimestamp w"
proof -
  let ?w = "afterRequests n idk win N path w"
  have pos: "0 < timeLeft win w"
    by (rule timeLeft_positive [OF assms(3,4)])
  note inv = afterRequests_counts [OF assms(1,2) pos, where n = n and idk = idk and lim = N and path = path]
    and frame = afterRequests_frame [OF assms(1,2) pos, where n = n and idk = idk and lim = N and path = path]
  have cnt: "nextCount ?w (windowKey idk win w) = int n + 1"
    using inv assms(5) by (simp add: nextCount_def)
  have "fst (checkWindowLimit idk win N path ?w) =
          Inr \<lparr> allowed = (int n + 1 \<le> N),
                 headers =
                   [(''X-RateLimit-Limit'', toString N),
                    (''X-RateLimit-Remaining'', toString (max 0 (N - (int n + 1)))),
                    (''X-RateLimit-Reset'', toString (getCurrentTimestamp w + timeLeft win w)),
                    (''X-RateLimit-Window'', win)]
                   @ (if int n + 1 \<le> N then []
                      else [(''Retry-After'', toString (timeLeft win w))]),
                 remaining = max 0 (N - (int n + 1)),
                 resetTime = getCurrentTimestamp w + timeLeft win w,
                 limit = N,
                 window = win \<rparr>"
    unfolding checkWindowLimit_healthy [of ?w idk win N path, OF conjunct1 [OF conjunct2 [OF inv]]
        conjunct1 [OF conjunct2 [OF conjunct2 [OF inv]]]] frame cnt
    by (rule refl)
  with assms(6) have r: "r = \<lparr> allowed = (int n + 1 \<le> N),
                 headers =
                   [(''X-RateLimit-Limit'', toString N),
                    (''X-RateLimit-Remaining'', toString (max 0 (N - (int n + 1)))),
                    (''X-RateLimit-Reset'', toString (getCurrentTimestamp w + timeLeft win w)),
                    (''X-RateLimit-Window'', win)]
                   @ (if int n + 1 \<le> N then []
                      else [(''Retry-After'', toString (timeLeft win w))]),
                 remaining = max 0 (N - (int n + 1)),
                 resetTime = getCurrentTimestamp w + timeLeft win w,
                 limit = N,
                 window = win \<rparr>"
    by simp
  have ts: "getCurrentTimestamp w + timeLeft win w - getCurrentTimestamp w = timeLeft win w"
    by simp
  show "int n + 1 \<le> N \<Longrightarrow> allowed r \<and> remaining r = N - (int n + 1)"
    by (simp add: r)
  show "int n = N \<Longrightarrow>
           \<not> allowed r \<and> remaining r = 0
           \<and> map_of (headers r) ''Retry-After'' = Some (toString (resetTime r - getCurrentTimestamp w))
           \<and> 0 < resetTime r - getCurrentTimestamp w"
    using pos ts by (simp add: r)
qed

text \<open>
  C1. The claim: for every enforced window with limit \<open>N\<close>, requests 1 to \<open>N\<close> in one
  window are allowed with \<open>remaining = N - count\<close>, and request \<open>N + 1\<close> is denied
  with \<open>remaining = 0\<close> and a positive \<open>Retry-After = resetTime - now\<close>. The month
  window breaks it: the window starts with the calendar month, but its reset time is
  30 days later. At noon of 31 January 2025 (UTC) \<open>resetTime - now\<close> is -43200, the
  \<open>EXPIRE\<close> sent with the increment deletes the counter, and under the limit 1 the
  second request of the window is allowed like the first.
\<close>

theorem C1_month_window_day_31:
  "timeLeft ''month'' (freshWorld 1738324800000) = - 43200
   \<and> fst (checkWindowLimit ''ip:abc'' ''month'' 1 ''/api/proxy/user'' (freshWorld 1738324800000)) =
       Inr \<lparr> allowed = True,
              headers = [(''X-RateLimit-Limit'', ''1''), (''X-RateLimit-Remaining'', ''0''),
                         (''X-RateLimit-Reset'', ''1738281600''), (''X-RateLimit-Window'', ''month'')],
              remaining = 0, resetTime = 1738281600, limit = 1, window = ''month'' \<rparr>
   \<and> fst (checkWindowLimit ''ip:abc'' ''month'' 1 ''/api/proxy/user''
           (afterRequests (Suc 0) ''ip:abc'' ''month'' 1 ''/api/proxy/user'' (freshWorld 1738324800000))) =
       Inr \<lparr> allowed = True,
              headers = [(''X-RateLimit-Limit'', ''1''), (''X-RateLimit-Remaining'', ''0''),
                         (''X-RateLimit-Reset'', ''1738281600''), (''X-RateLimit-Window'', ''month'')],
              remaining = 0, resetTime = 1738281600, limit = 1, window = ''month'' \<rparr>"
  by (simp add: timeLeft_def checkWindowLimit_def getCurrentTimestamp_def getWindowStart_def
      month_start_jan31 getResetTime_def ttlMap_def freshWorld_def incr_expire_healthy
      redis_read_def live_def toString_def digits.simps Let_def)

text \<open>
  C5, as the code has it: for the minute, hour and day windows the time to live sent
  with every increment is \<open>resetTime - now\<close>, the time left in the window. From the
  epoch on this is the duration minus \<open>now mod duration\<close>: between 1 and the duration,
  and the full duration only for an increment at the very start of the window.
\<close>

theorem C5_ttl_is_time_left_in_window:
  assumes "redis_configured w" and "ttlMap win = Some d" and "win \<noteq> ''month''"
    and "0 \<le> clock w"
  shows "oplog (snd (checkWindowLimit idk win lim path w)) =
           oplog w @ [INCR (windowKey idk win w),
                      EXPIRE (windowKey idk win w) (d - getCurrentTimestamp w mod d)]
         \<and> 0 < d - getCurrentTimestamp w mod d
         \<and> d - getCurrentTimestamp w mod d \<le> d
         \<and> ((d - getCurrentTimestamp w mod d = d) = (getCurrentTimestamp w mod d = 0))"
proof -
  have d: "0 < d"
    using short_windows [OF assms(2,3), of 0 0 0] by simp
  have "0 \<le> getCurrentTimestamp w"
    using assms(4) by (simp add: getCurrentTimestamp_def pos_imp_zdiv_nonneg_iff)
  then have "timeLeft win w = d - getCurrentTimestamp w mod d"
    using timeLeft_short [OF assms(2,3), of w] d by (simp add: js_rem_nonneg)
  moreover have "0 \<le> getCurrentTimestamp w mod d" "getCurrentTimestamp w mod d < d"
    using d by simp_all
  ultimately show ?thesis
    using checkWindowLimit_oplog [OF assms(1), of idk win lim path] by simp
qed

theorem C5_ttl_is_time_left_in_window_witness:
  "oplog (snd (checkWindowLimit ''ip:abc'' ''minute'' 10 ''/api/proxy/user'' (freshWorld 1738324830000))) =
     [INCR (windowKey ''ip:abc'' ''minute'' (freshWorld 1738324830000)),
      EXPIRE (windowKey ''ip:abc'' ''minute'' (freshWorld 1738324830000)) 30]"
  using C5_ttl_is_time_left_in_window [of "freshWorld 1738324830000" "''minute''" 60
      "''ip:abc''" 10 "''/api/proxy/user''"]
  by (simp add: freshWorld_def ttlMap_def getCurrentTimestamp_def)

text \<open>
  The claim C5 as stated, that the time to live is always the full duration of the
  window, fails thirty seconds into a minute: the time to live sent is 30, not 60.
\<close>

theorem C5_counterexample:
  "last (oplog (snd (checkWindowLimit ''ip:abc'' ''minute'' 10 ''/api/proxy/user''
           (freshWorld 1738324830000)))) =
     EXPIRE (generateRedisKey ''ip:abc'' ''minute'' 1738324800) 30
   \<and> last (oplog (snd (checkWindowLimit ''ip:abc'' ''minute'' 10 ''/api/proxy/user''
           (freshWorld 1738324830000)))) \<noteq>
     EXPIRE (generateRedisKey ''ip:abc'' ''minute'' 1738324800) 60"
  by (simp add: checkWindowLimit_def getCurrentTimestamp_def getWindowStart_def js_rem_def
      getResetTime_def ttlMap_def freshWorld_def incr_expire_healthy Let_def)

subsection \<open>The whole check\<close>

lemma loadConfig_no_file: "config_source w = None \<Longrightarrow> loadConfig w = (defaultConfig, w)"
  by (simp add: loadConfig_def loadConfig_try_def)

lemma loadConfig_frame:
  "snd (loadConfig w) = w\<lparr>cachedConfig := cachedConfig (snd (loadConfig w)),
                           configLastModified := configLastModified (snd (loadConfig w))\<rparr>"
  by (simp add: loadConfig_def loadConfig_try_def reloadConfig_def
      split: option.split file_content.split)

lemma loadConfig_store:
  "oplog (snd (loadConfig w)) = oplog w"
  "faults (snd (loadConfig w)) = faults w"
  "redis_data (snd (loadConfig w)) = redis_data w"
  "redis_deadline (snd (loadConfig w)) = redis_deadline w"
  by (subst loadConfig_frame, simp)+

lemma identity_of_bareRequest:
  "config_source w = None \<Longrightarrow>
   getIdentityKey plainLibs (bareRequest p) w = (''ip:12ca17b49af22894'', w)"
  by (simp add: getIdentityKey_def loadConfig_no_file defaultConfig_def extractJwtSubject_def
      bareRequest_def or_null_def extractSessionId_def extractHashedIp_def clientAddress_def
      plainLibs_def)

lemma proxy_user_in_scope:
  "config_source w = None \<Longrightarrow> isRouteInScope ''/api/proxy/user'' w = (True, w)"
  by (simp add: isRouteInScope_def getIdentityConfig_def loadConfig_no_file defaultConfig_def
      startsWith_def)

lemma kind_of_ip_identity: "identityKind ''ip:12ca17b49af22894'' = ''ip''"
  by (simp add: identityKind_def)

text \<open>One window does mark a failing round trip: it is allowed, with the error header.\<close>

lemma checkWindowLimit_store_failure:
  assumes "redis_configured w" "faults w = True # fs"
  shows "fst (checkWindowLimit idk win lim path w) =
           Inr \<lparr> allowed = True,
                  headers =
                    [(''X-RateLimit-Limit'', toString lim),
                     (''X-RateLimit-Remaining'', toString lim),
                     (''X-RateLimit-Reset'', toString (getCurrentTimestamp w + 60)),
                     (''X-RateLimit-Window'', win),
                     (''X-RateLimit-Error'', ''redis-unavailable'')],
                  remaining = lim,
                  resetTime = getCurrentTimestamp w + 60,
                  limit = lim,
                  window = win \<rparr>"
  using assms
  by (simp add: checkWindowLimit_def redis_incr_expire_def round_trip_def Let_def)

lemma checkWindows_denied:
  "checkWindows idk path lims wins w = (Inr (Some r), w') \<Longrightarrow> \<not> allowed r"
proof (induction wins arbitrary: w)
  case Nil
  then show ?case by simp
next
  case (Cons win wins)
  then show ?case
    by (auto split: if_splits prod.splits sum.splits)
qed

lemma applyRateLimit_try_allowed_headers:
  assumes "applyRateLimit_try L req w = (Inr r, w')" and "allowed r"
  shows "map_of (headers r) ''X-RateLimit-Error'' = None"
proof (cases "pathname req")
  case None
  with assms show ?thesis
    by (simp add: applyRateLimit_try_def)
next
  case (Some path)
  obtain inScope w1 where sc: "isRouteInScope path w = (inScope, w1)"
    by (cases "isRouteInScope path w")
  show ?thesis
  proof (cases inScope)
    case False
    with assms Some sc show ?thesis
      by (auto simp: applyRateLimit_try_def excludedResult_def)
  next
    case True
    obtain idk w2 where ik: "getIdentityKey L req w1 = (idk, w2)"
      by (cases "getIdentityKey L req w1")
    obtain config w3 where cf: "getIdentityConfig w2 = (config, w3)"
      by (cases "getIdentityConfig w2")
    obtain res w4 where cw: "checkWindows idk path (global (limits config))
        [''minute'', ''hour'', ''day'', ''month''] w3 = (res, w4)"
      by (cases "checkWindows idk path (global (limits config)) [''minute'', ''hour'', ''day'', ''month''] w3")
    show ?thesis
    proof (cases res)
      case (Inl e)
      with assms Some sc True ik cf cw show ?thesis
        by (simp add: applyRateLimit_try_def)
    next
      case (Inr denied)
      show ?thesis
      proof (cases denied)
        case None
        with assms Some sc True ik cf cw Inr show ?thesis
          by (auto simp: applyRateLimit_try_def Let_def split: prod.splits)
      next
        case (Some d)
        have "\<not> allowed d"
          by (rule checkWindows_denied [OF cw [unfolded Inr Some]])
        moreover from assms(1) \<open>pathname req = Some path\<close> sc True ik cf cw Inr Some have "r = d"
          by (simp add: applyRateLimit_try_def)
        ultimately show ?thesis
          using assms(2) by simp
      qed
    qed
  qed
qed

text \<open>
  No allowed result of \<open>applyRateLimit\<close> carries the marker of a failed store call.
\<close>

lemma applyRateLimit_never_reports_store_failure:
  assumes "allowed (fst (applyRateLimit L req w))"
  shows "map_of (headers (fst (applyRateLimit L req w))) ''X-RateLimit-Error'' \<noteq> Some ''redis-unavailable''"
proof (cases "applyRateLimit_try L req w")
  case (Pair res w')
  show ?thesis
  proof (cases res)
    case (Inl e)
    with Pair show ?thesis
      by (simp add: applyRateLimit_def systemErrorResult_def)
  next
    case (Inr r)
    with Pair assms have "allowed r"
      by (simp add: applyRateLimit_def)
    from applyRateLimit_try_allowed_headers [OF Pair [unfolded Inr] this] Pair Inr show ?thesis
      by (simp add: applyRateLimit_def)
  qed
qed

text \<open>
  C2. The claim: whenever a store call throws during a request, the check returns
  \<open>allowed = true\<close> with a degradation marker in its headers and does not propagate
  the error. \<open>applyRateLimit\<close> breaks it. With the store down for the whole request
  (default configuration, a route in scope) every window comes back allowed with the
  header \<open>X-RateLimit-Error\<close>, but the final result is built from new headers and
  the marker is lost. And when only the minute window's round trip fails while the
  hour counter is over its limit, the request is denied.
\<close>

theorem C2_degradation_marker_dropped:
  "fst (applyRateLimit plainLibs (bareRequest ''/api/proxy/user'') (storeDown 1738324830000)) =
     \<lparr> allowed = True,
       headers = [(''X-RateLimit-Limit'', ''10''), (''X-RateLimit-Remaining'', ''10''),
                  (''X-RateLimit-Reset'', ''1738324890''), (''X-RateLimit-Window'', ''minute''),
                  (''X-RateLimit-Identity'', ''ip'')],
       remaining = 10, resetTime = 1738324890, limit = 10, window = ''minute'' \<rparr>
   \<and> fst (applyRateLimit plainLibs (bareRequest ''/api/proxy/user'') (storeHiccup 1738324830000)) =
     \<lparr> allowed = False,
       headers = [(''X-RateLimit-Limit'', ''100''), (''X-RateLimit-Remaining'', ''0''),
                  (''X-RateLimit-Reset'', ''1738328400''), (''X-RateLimit-Window'', ''hour''),
                  (''Retry-After'', ''3570''), (''X-RateLimit-Identity'', ''ip'')],
       remaining = 0, resetTime = 1738328400, limit = 100, window = ''hour'' \<rparr>"
proof
  have w: "config_source (storeDown 1738324830000) = None"
    by (simp add: storeDown_def freshWorld_def)
  show "fst (applyRateLimit plainLibs (bareRequest ''/api/proxy/user'') (storeDown 1738324830000)) =
     \<lparr> allowed = True,
       headers = [(''X-RateLimit-Limit'', ''10''), (''X-RateLimit-Remaining'', ''10''),
                  (''X-RateLimit-Reset'', ''1738324890''), (''X-RateLimit-Window'', ''minute''),
                  (''X-RateLimit-Identity'', ''ip'')],
       remaining = 10, resetTime = 1738324890, limit = 10, window = ''minute'' \<rparr>"
    apply (simp add: applyRateLimit_def applyRateLimit_try_def proxy_user_in_scope [OF w]
        identity_of_bareRequest [OF w] getIdentityConfig_def loadConfig_no_file [OF w]
        bareRequest_def [of "''/api/proxy/user''", THEN arg_cong [where f = pathname]])
    apply (simp add: storeDown_def freshWorld_def defaultConfig_def limit_of_def
        checkWindowLimit_def redis_incr_expire_def round_trip_def Let_def
        actualRemainingAndReset_def redis_get_def getCurrentTimestamp_def toString_def
        digits.simps kind_of_ip_identity)
    done
next
  have w: "config_source (storeHiccup 1738324830000) = None"
    by (simp add: storeHiccup_def freshWorld_def)
  show "fst (applyRateLimit plainLibs (bareRequest ''/api/proxy/user'') (storeHiccup 1738324830000)) =
     \<lparr> allowed = False,
       headers = [(''X-RateLimit-Limit'', ''100''), (''X-RateLimit-Remaining'', ''0''),
                  (''X-RateLimit-Reset'', ''1738328400''), (''X-RateLimit-Window'', ''hour''),
                  (''Retry-After'', ''3570''), (''X-RateLimit-Identity'', ''ip'')],
       remaining = 0, resetTime = 1738328400, limit = 100, window = ''hour'' \<rparr>"
    apply (simp add: applyRateLimit_def applyRateLimit_try_def proxy_user_in_scope [OF w]
        identity_of_bareRequest [OF w] getIdentityConfig_def loadConfig_no_file [OF w]
        bareRequest_def [of "''/api/proxy/user''", THEN arg_cong [where f = pathname]])
    apply (simp add: storeHiccup_def freshWorld_def defaultConfig_def limit_of_def
        checkWindowLimit_def redis_incr_expire_def round_trip_def Let_def
        getCurrentTimestamp_def getWindowStart_def getResetTime_def ttlMap_def js_rem_def
        redis_read_def live_def toString_def digits.simps kind_of_ip_identity)
    done
qed

text \<open>
  C8. For a request whose path starts with no route of \<open>routesInScope\<close>, the check
  returns \<open>allowed = true\<close> with the header \<open>X-RateLimit-Scope: excluded\<close> and makes
  no round trip to the store: the log of store commands, the stored values, their
  deadlines and the pending faults are what they were, whatever the counters hold.
\<close>

theorem C8_out_of_scope_skips_store:
  assumes "pathname req = Some path"
    and "\<not> list_ex (\<lambda>route. startsWith path route) (routesInScope (fst (loadConfig w)))"
  shows "allowed (fst (applyRateLimit L req w))
         \<and> headers (fst (applyRateLimit L req w)) = [(''X-RateLimit-Scope'', ''excluded'')]
         \<and> oplog (snd (applyRateLimit L req w)) = oplog w
         \<and> redis_data (snd (applyRateLimit L req w)) = redis_data w
         \<and> redis_deadline (snd (applyRateLimit L req w)) = redis_deadline w
         \<and> faults (snd (applyRateLimit L req w)) = faults w"
proof -
  obtain config w1 where lc: "loadConfig w = (config, w1)"
    by (cases "loadConfig w")
  with assms(2) have out: "isRouteInScope path w = (False, w1)"
    by (simp add: isRouteInScope_def getIdentityConfig_def)
  have "applyRateLimit L req w = (excludedResult w1, w1)"
    by (simp add: applyRateLimit_def applyRateLimit_try_def assms(1) out)
  moreover have "w1 = snd (loadConfig w)"
    by (simp add: lc)
  ultimately show ?thesis
    by (simp add: excludedResult_def loadConfig_store)
qed

theorem C8_out_of_scope_skips_store_witness:
  "allowed (fst (applyRateLimit plainLibs (bareRequest ''/api/health'') (storeHiccup 1738324830000)))
   \<and> headers (fst (applyRateLimit plainLibs (bareRequest ''/api/health'') (storeHiccup 1738324830000))) =
       [(''X-RateLimit-Scope'', ''excluded'')]
   \<and> oplog (snd (applyRateLimit plainLibs (bareRequest ''/api/health'') (storeHiccup 1738324830000))) = []
   \<and> faults (snd (applyRateLimit plainLibs (bareRequest ''/api/health'') (storeHiccup 1738324830000))) = [True]"
  using C8_out_of_scope_skips_store [of "bareRequest ''/api/health''" "''/api/health''"
      "storeHiccup 1738324830000" plainLibs]
  by (simp add: bareRequest_def loadConfig_no_file storeHiccup_def freshWorld_def defaultConfig_def
      startsWith_def)

section \<open>Properties of the configuration and of identity resolution\<close>

text \<open>
  C4, as the code has it: whenever the read of the configuration fails, \<open>loadConfig\<close>
  returns the hardcoded default, also when a snapshot was loaded before; the snapshot
  stays cached but is not returned. \<open>loadConfig\<close> returns a configuration on every
  path, so nothing is thrown to the request.
\<close>

theorem C4_failed_read_gives_default:
  assumes "sourceFails w"
  shows "loadConfig w = (defaultConfig, w)"
proof (cases "config_source w")
  case None
  then show ?thesis
    by (simp add: loadConfig_no_file)
next
  case (Some f)
  with assms have "cachedConfig w = None \<or> configLastModified w < mtimeMs f"
    and "\<not> is_valid (content f)"
    by (simp_all add: sourceFails_def)
  with Some show ?thesis
    by (auto simp: loadConfig_def loadConfig_try_def reloadConfig_def is_valid_def
        split: option.split file_content.split)
qed

theorem C4_failed_read_gives_default_witness:
  "sourceFails (brokenReload 0)
   \<and> loadConfig (brokenReload 0) = (defaultConfig, brokenReload 0)"
  using C4_failed_read_gives_default [of "brokenReload 0"]
  by (simp add: sourceFails_def brokenReload_def securedWorld_def freshWorld_def is_valid_def)

text \<open>A snapshot that is as new as the file is returned without reading the file.\<close>

lemma loadConfig_cached:
  assumes "config_source w = Some f" and "cachedConfig w = Some c"
    and "\<not> configLastModified w < mtimeMs f"
  shows "loadConfig w = (c, w)"
  using assms by (simp add: loadConfig_def loadConfig_try_def)

text \<open>
  The claim C4 as stated, that a failed read returns the last snapshot when there is one,
  fails when the file is rewritten with malformed text after a good load: the
  snapshot (with its secret) is cached, and the default (with no secret) is returned.
\<close>

theorem C4_counterexample:
  "cachedConfig (brokenReload 0) = Some securedConfig
   \<and> fst (loadConfig (brokenReload 0)) = defaultConfig
   \<and> jwtSecret (fst (loadConfig (brokenReload 0))) \<noteq> jwtSecret securedConfig"
  by (simp add: loadConfig_def loadConfig_try_def reloadConfig_def brokenReload_def
      securedWorld_def freshWorld_def securedConfig_def defaultConfig_def)

text \<open>
  C3. The claim: with a secret configured, \<open>jwt-sub\<close> gives an identity only for
  tokens that verify against it, and decodes without verification only when no secret
  is configured. \<open>extractJwtSubject\<close> breaks it: when verification throws, the
  exception is caught and the token is decoded without verification all the same, so
  a forged token naming the subject \<open>admin\<close> resolves to \<open>jwt:admin\<close>.
\<close>

theorem C3_forged_token_accepted:
  "jwtSecret (fst (loadConfig (securedWorld 0))) = Some ''s3cret''
   \<and> jwtVerify forgedLibs ''forged'' ''s3cret'' = Threw
   \<and> fst (extractJwtSubject forgedLibs (bearerRequest ''/api/proxy/user'' ''forged'') (securedWorld 0)) =
       Some ''admin''
   \<and> fst (getIdentityKey forgedLibs (bearerRequest ''/api/proxy/user'' ''forged'') (securedWorld 0)) =
       ''jwt:admin''"
  by (simp add: getIdentityKey_def extractJwtSubject_def verifyWithSecret_def loadConfig_def
      loadConfig_try_def securedWorld_def freshWorld_def securedConfig_def defaultConfig_def
      forgedLibs_def plainLibs_def bearerRequest_def bareRequest_def startsWith_def or_null_def)

text \<open>What \<open>extractJwtSubject\<close> does with a token that verifies, and with no secret.\<close>

lemma extractJwtSubject_verified:
  assumes "req_headers req ''Authorization'' = Some (''Bearer '' @ tok)"
    and "jwtSecret (fst (loadConfig w)) = Some secret" and "secret \<noteq> []"
    and "jwtVerify L tok secret = Reply payload"
  shows "fst (extractJwtSubject L req w) = or_null (sub payload)"
  using assms
  by (cases "loadConfig w") (simp add: extractJwtSubject_def verifyWithSecret_def startsWith_def)

lemma extractJwtSubject_unverified:
  assumes "req_headers req ''Authorization'' = Some (''Bearer '' @ tok)"
    and "jwtSecret (fst (loadConfig w)) = None"
    and "decodeJwt L tok = Reply decoded"
  shows "fst (extractJwtSubject L req w) = or_null (sub decoded)"
  using assms
  by (cases "loadConfig w") (simp add: extractJwtSubject_def verifyWithSecret_def startsWith_def)

text \<open>With a secret configured, a token that fails verification is decoded all the same.\<close>

lemma extractJwtSubject_falls_through:
  assumes "req_headers req ''Authorization'' = Some (''Bearer '' @ tok)"
    and "jwtSecret (fst (loadConfig w)) = Some secret"
    and "jwtVerify L tok secret = Threw"
    and "decodeJwt L tok = Reply decoded"
  shows "fst (extractJwtSubject L req w) = or_null (sub decoded)"
  using assms
  by (cases "loadConfig w") (simp add: extractJwtSubject_def verifyWithSecret_def startsWith_def)

subsection \<open>The waterfall\<close>

lemma identityWaterfall_reaches_ip:
  "Ip \<in> set order \<Longrightarrow>
   startsWith (fst (identityWaterfall L req order w)) ''jwt:''
   \<or> startsWith (fst (identityWaterfall L req order w)) ''session:''
   \<or> fst (identityWaterfall L req order w) = ''ip:'' @ extractHashedIp L req"
proof (induction order arbitrary: w)
  case Nil
  then show ?case by simp
next
  case (Cons m order)
  show ?case
  proof (cases m)
    case JwtSub
    with Cons.prems have "Ip \<in> set order" by simp
    from Cons.IH [OF this] JwtSub show ?thesis
      by (simp add: startsWith_def split: prod.split option.split)
  next
    case SessionCookie
    with Cons.prems have "Ip \<in> set order" by simp
    from Cons.IH [OF this] SessionCookie show ?thesis
      by (simp add: startsWith_def split: option.split)
  next
    case Ip
    then show ?thesis by simp
  qed
qed

text \<open>
  C10. When \<open>ip\<close> is in the configured order, identity resolution never returns
  \<open>anonymous\<close>: the result is a \<open>jwt:\<close> or \<open>session:\<close> key of an earlier
  strategy, or the key of the \<open>ip\<close> strategy, which always yields one. When the
  digest throws, that key is the fixed \<open>ip:unknown\<close>, the same for every caller.
\<close>

theorem C10_ip_strategy_is_total:
  assumes "Ip \<in> set (identityOrder (fst (loadConfig w)))"
  shows "fst (getIdentityKey L req w) \<noteq> ''anonymous''
         \<and> (sha256_hex L (clientAddress req) = Threw \<longrightarrow>
              fst (getIdentityKey L req w) = ''ip:unknown''
              \<or> startsWith (fst (getIdentityKey L req w)) ''jwt:''
              \<or> startsWith (fst (getIdentityKey L req w)) ''session:'')"
proof -
  obtain config w' where lc: "loadConfig w = (config, w')"
    by (cases "loadConfig w")
  let ?k = "fst (identityWaterfall L req (identityOrder config) w')"
  have k: "fst (getIdentityKey L req w) = ?k"
    by (simp add: getIdentityKey_def lc)
  from assms lc have "Ip \<in> set (identityOrder config)"
    by simp
  from identityWaterfall_reaches_ip [OF this, of L req w']
  have cases: "startsWith ?k ''jwt:'' \<or> startsWith ?k ''session:''
               \<or> ?k = ''ip:'' @ extractHashedIp L req" .
  have "?k \<noteq> ''anonymous''"
    using cases by (auto simp: startsWith_def)
  moreover have "sha256_hex L (clientAddress req) = Threw \<longrightarrow>
                   ?k = ''ip:unknown'' \<or> startsWith ?k ''jwt:'' \<or> startsWith ?k ''session:''"
    using cases by (auto simp: extractHashedIp_def)
  ultimately show ?thesis
    unfolding k by blast
qed

theorem C10_ip_strategy_is_total_witness:
  "Ip \<in> set (identityOrder (fst (loadConfig (freshWorld 0))))
   \<and> sha256_hex noDigestLibs (clientAddress (bareRequest ''/api/proxy/user'')) = Threw
   \<and> fst (getIdentityKey noDigestLibs (bareRequest ''/api/proxy/user'') (freshWorld 0)) = ''ip:unknown''"
  using C10_ip_strategy_is_total [of "freshWorld 0" noDigestLibs "bareRequest ''/api/proxy/user''"]
  by (simp add: getIdentityKey_def loadConfig_def loadConfig_try_def freshWorld_def
      defaultConfig_def extractJwtSubject_def bareRequest_def or_null_def extractSessionId_def
      extractHashedIp_def clientAddress_def noDigestLibs_def plainLibs_def)

section \<open>Properties of the verification gate\<close>

lemma gateEnv_config:
  "getTurnstileConfig gateEnv =
     \<lparr> enabled = True, bypassAuthenticated = True, requiredForIPUsers = True,
       cacheDuration = Some 300000, siteKey = None \<rparr>"
  by (simp add: getTurnstileConfig_def gateEnv_def or_null_def parseInt_def is_space_def
      parse_unsigned_def digit_val_def)

text \<open>
  C7. With the gate enabled and the bypass for authenticated callers set, no challenge
  is required of an identity whose key starts with \<open>jwt:\<close> or \<open>session:\<close>. The
  decision reads no cache: \<open>applyTurnstileVerification\<close> answers at once and leaves
  the world as it was, whether or not a verification record exists.
\<close>

theorem C7_authenticated_identities_bypass:
  assumes "enabled (getTurnstileConfig env)" and "bypassAuthenticated (getTurnstileConfig env)"
    and "startsWith identityKey ''jwt:'' \<or> startsWith identityKey ''session:''"
  shows "\<not> isTurnstileRequired env identityKey req
         \<and> applyTurnstileVerification env req identityKey w =
             (\<lparr> verified = True, required = False, err = None,
                bypassReason = Some ''authenticated'' \<rparr>, w)"
  using assms
  by (auto simp: isTurnstileRequired_def applyTurnstileVerification_def Let_def)

theorem C7_authenticated_identities_bypass_witness:
  "verificationCache (freshWorld 0) (getCacheKey ''session:abc'') = None
   \<and> redis_read (freshWorld 0) (getCacheKey ''session:abc'') = None
   \<and> \<not> isTurnstileRequired gateEnv ''session:abc'' (bareRequest ''/api/proxy/user'')
   \<and> required (fst (applyTurnstileVerification gateEnv (bareRequest ''/api/proxy/user'')
                      ''session:abc'' (freshWorld 0))) = False"
  using C7_authenticated_identities_bypass [of gateEnv "''session:abc''"
      "bareRequest ''/api/proxy/user''" "freshWorld 0"]
  by (simp add: gateEnv_config startsWith_def freshWorld_def redis_read_def live_def)

subsection \<open>The verification cache\<close>

lemma storeConfirms_frame:
  "clock (snd (storeConfirms k w)) = clock w"
  "verificationCache (snd (storeConfirms k w)) = verificationCache w"
  by (simp_all add: storeConfirms_def redis_exists_def round_trip_def
      split: list.split bool.split)

lemma storeConfirms_iff:
  "fst (storeConfirms k w) = (storeReachable w \<and> live w k)"
  by (auto simp: storeConfirms_def storeReachable_def redis_exists_def round_trip_def live_def
      split: list.split bool.split option.split)

lemma hasValidCachedVerification_fst:
  "fst (hasValidCachedVerification env identityKey w) =
     (fst (storeConfirms (getCacheKey identityKey) w) \<or> memoryValid env identityKey w)"
proof (cases "storeConfirms (getCacheKey identityKey) w")
  case (Pair b w')
  have "clock w' = clock w" "verificationCache w' = verificationCache w"
    using storeConfirms_frame [of "getCacheKey identityKey" w] Pair by simp_all
  with Pair show ?thesis
    by (cases b)
       (simp_all add: hasValidCachedVerification_def memoryValid_def Let_def
          split: option.split)
qed

text \<open>
  C6, as the code has it: the in-memory map is consulted whenever the store does not
  confirm a record, whether it is unreachable, not configured, or reachable and
  reporting none. So an identity counts as verified exactly when a reachable store
  holds a live record or the map holds an unexpired one: a reachable store that
  reports no record yields "not verified" only when the map has no unexpired record.
\<close>

theorem C6_memory_consulted_unless_store_confirms:
  "fst (hasValidCachedVerification env identityKey w) =
     ((storeReachable w \<and> live w (getCacheKey identityKey)) \<or> memoryValid env identityKey w)"
  by (simp add: hasValidCachedVerification_fst storeConfirms_iff)

text \<open>
  The claim C6 as stated, that a reachable store reporting no record yields "not
  verified", fails for a verification that was recorded while the store was failing:
  the store is reachable again and answers 0, the map holds the record, and the
  identity counts as verified.
\<close>

theorem C6_counterexample:
  "storeReachable (memoryOnlyWorld 1738324830000)
   \<and> fst (redis_exists (getCacheKey ''ip:abc'') (memoryOnlyWorld 1738324830000)) = Reply 0
   \<and> fst (hasValidCachedVerification gateEnv ''ip:abc'' (memoryOnlyWorld 1738324830000)) = True"
  by (simp add: memoryOnlyWorld_def cacheVerification_def freshWorld_def redis_set_ex_def
      round_trip_def storeReachable_def redis_exists_def live_def
      hasValidCachedVerification_def storeConfirms_def gateEnv_config Let_def)

subsection \<open>Recording a verification\<close>

text \<open>The cache duration is a whole number of seconds: \<open>parseInt(...) * 1000\<close>.\<close>

lemma cacheDuration_seconds:
  "cacheDuration (getTurnstileConfig env) = Some d \<Longrightarrow> d div 1000 * 1000 = d"
  by (auto simp: getTurnstileConfig_def)

lemma cacheVerification_memory:
  "clock (cacheVerification env identityKey tok act w) = clock w"
  "verificationCache (cacheVerification env identityKey tok act w) (getCacheKey identityKey) =
     Some \<lparr> token = tok, verifiedAt = clock w, action = act \<rparr>"
  by (simp_all add: cacheVerification_def redis_set_ex_def round_trip_def Let_def
      split: list.split bool.split option.split)

text \<open>
  The store after \<open>cacheVerification\<close>: the record is there with the cache duration
  as its time to live, or (no client, or the round trip threw) nothing has changed.
\<close>

lemma cacheVerification_store:
  assumes "cacheDuration (getTurnstileConfig env) = Some d" "0 < d"
  shows "(redis_data (cacheVerification env identityKey tok act w) (getCacheKey identityKey) = Some 1
          \<and> redis_deadline (cacheVerification env identityKey tok act w) (getCacheKey identityKey) =
              Some (clock w + d))
         \<or> (redis_data (cacheVerification env identityKey tok act w) = redis_data w
             \<and> redis_deadline (cacheVerification env identityKey tok act w) = redis_deadline w)"
proof -
  have m: "d div 1000 * 1000 = d"
    by (rule cacheDuration_seconds [OF assms(1)])
  have pos: "\<not> d div 1000 \<le> 0"
    using m assms(2) by (cases "d div 1000 \<le> 0") auto
  then have t: "max 1 (d div 1000) = d div 1000"
    by simp
  show ?thesis
    using assms(1) pos
    by (simp add: cacheVerification_def redis_set_ex_def round_trip_def Let_def ttlSeconds_def
        t m split: list.split bool.split)
qed

text \<open>
  C9. With a positive cache duration \<open>d\<close>, an identity is verified right after
  \<open>cacheVerification\<close>, whatever the store does; and once \<open>d\<close> or more has elapsed
  since the recording it is not verified any more, provided the store held no older
  record of the identity that is still alive by then.
\<close>

theorem C9_record_then_verified_until_ttl:
  assumes "cacheDuration (getTurnstileConfig env) = Some d" and "0 < d" and "d \<le> elapsed"
    and "\<not> live (advance elapsed w) (getCacheKey identityKey)"
  shows "fst (isIdentityVerified env identityKey (cacheVerification env identityKey tok act w))
         \<and> \<not> fst (isIdentityVerified env identityKey
                   (advance elapsed (cacheVerification env identityKey tok act w)))"
proof -
  let ?w1 = "cacheVerification env identityKey tok act w"
  let ?k = "getCacheKey identityKey"
  note mem = cacheVerification_memory [of env identityKey tok act w]
  have "memoryValid env identityKey ?w1"
    using mem assms(1,2) by (simp add: memoryValid_def)
  then have now: "fst (isIdentityVerified env identityKey ?w1)"
    by (simp add: isIdentityVerified_def hasValidCachedVerification_fst)
  have "\<not> memoryValid env identityKey (advance elapsed ?w1)"
    using mem assms(1,3) by (simp add: memoryValid_def advance_def)
  moreover have "\<not> live (advance elapsed ?w1) ?k"
    using cacheVerification_store [OF assms(1,2), of identityKey tok act w] assms(3,4) mem(1)
    by (auto simp: live_def advance_def split: option.splits)
  ultimately have "\<not> fst (isIdentityVerified env identityKey (advance elapsed ?w1))"
    by (simp add: isIdentityVerified_def hasValidCachedVerification_fst storeConfirms_iff)
  with now show ?thesis
    by simp
qed

theorem C9_record_then_verified_until_ttl_witness:
  "cacheDuration (getTurnstileConfig gateEnv) = Some 300000
   \<and> fst (isIdentityVerified gateEnv ''ip:abc''
           (cacheVerification gateEnv ''ip:abc'' ''tok'' None (freshWorld 1738324830000)))
   \<and> \<not> fst (isIdentityVerified gateEnv ''ip:abc''
             (advance 300000
               (cacheVerification gateEnv ''ip:abc'' ''tok'' None (freshWorld 1738324830000))))"
  using C9_record_then_verified_until_ttl [of gateEnv 300000 300000 "freshWorld 1738324830000"
      "''ip:abc''" "''tok''" None]
  by (simp add: gateEnv_config live_def advance_def freshWorld_def)

end
